theory Spec2Isabelle
  imports Main "HOL-Library.Word" "HOL-Library.Sublist"
begin

section \<open>JavaScript strings and numbers\<close>

text \<open>
  A JavaScript string is a sequence of 16-bit code units; \<open>length\<close> counts code units.
  ASCII literals of the source are written \<open>js ''...''\<close>; the three non-ASCII code units the
  source uses are given by number.
\<close>

type_synonym jschar = "16 word"
type_synonym jsstring = "jschar list"

definition js :: "string \<Rightarrow> jsstring" where
  "js s = map (\<lambda>c. of_char c) s"

text \<open>\<open>s.startsWith(p)\<close> and \<open>s.endsWith(p)\<close>.\<close>

definition startsWith :: "jsstring \<Rightarrow> jsstring \<Rightarrow> bool" where
  "startsWith s p = prefix p s"

definition endsWith :: "jsstring \<Rightarrow> jsstring \<Rightarrow> bool" where
  "endsWith s p = suffix p s"

text \<open>\<open>s.substring(0, n)\<close> for \<open>0 \<le> n\<close>.\<close>

definition substring0 :: "jsstring \<Rightarrow> nat \<Rightarrow> jsstring" where
  "substring0 s n = take n s"

text \<open>
  The decimal rendering of an integral Number in a template literal. Time values are
  integers of magnitude below \<open>10^21\<close>, where JavaScript prints plain decimal digits with a
  leading minus sign for negative values.
\<close>

definition digit_char :: "nat \<Rightarrow> jschar" where
  "digit_char d = of_nat (48 + d)"

function nat_toString :: "nat \<Rightarrow> jsstring" where
  "nat_toString n =
     (if n < 10 then [digit_char n] else nat_toString (n div 10) @ [digit_char (n mod 10)])"
  by pat_completeness auto
termination
  by (relation "measure id") auto

declare nat_toString.simps [simp del]

definition Number_toString :: "int \<Rightarrow> jsstring" where
  "Number_toString i =
     (if i < 0 then js ''-'' @ nat_toString (nat (- i)) else nat_toString (nat i))"

text \<open>Reading a decimal rendering back; used only to show that rendering is injective.\<close>

definition digits_value :: "jsstring \<Rightarrow> nat" where
  "digits_value cs = foldl (\<lambda>a c. 10 * a + (unat c - 48)) 0 cs"

definition decimal_value :: "jsstring \<Rightarrow> int" where
  "decimal_value cs =
     (case cs of
        [] \<Rightarrow> 0
      | c # r \<Rightarrow> if c = 45 then - int (digits_value r) else int (digits_value cs))"

text \<open>
  \<open>path.basename(p)\<close> on a POSIX host: trailing slashes are dropped, then the part after
  the last remaining slash is taken (code unit 47 is the slash).
\<close>

definition basename :: "jsstring \<Rightarrow> jsstring" where
  "basename p = rev (takeWhile (\<lambda>c. c \<noteq> 47) (dropWhile (\<lambda>c. c = 47) (rev p)))"

text \<open>
  \<open>s.replace(pat, rep)\<close> with a string pattern: the first occurrence of \<open>pat\<close> is replaced.
  The replacements of the source contain no \<open>$\<close>, so they are inserted as they are.
\<close>

fun replace :: "jsstring \<Rightarrow> jsstring \<Rightarrow> jsstring \<Rightarrow> jsstring" where
  "replace [] pat rep = (if pat = [] then rep else [])"
| "replace (c # cs) pat rep =
     (if prefix pat (c # cs) then rep @ drop (length pat) (c # cs)
      else c # replace cs pat rep)"

text \<open>A value interpolated into a template literal: \<open>undefined\<close> prints as that word.\<close>

definition template_undefined :: "jsstring option \<Rightarrow> jsstring" where
  "template_undefined v = (case v of None \<Rightarrow> js ''undefined'' | Some s \<Rightarrow> s)"

text \<open>Truthiness of a possibly missing string: \<open>null\<close>, \<open>undefined\<close> and \<open>""\<close> are falsy.\<close>

definition truthy :: "jsstring option \<Rightarrow> bool" where
  "truthy v = (case v of None \<Rightarrow> False | Some s \<Rightarrow> s \<noteq> [])"

section \<open>Errors\<close>

text \<open>
  A thrown value: an \<open>Error\<close> with its message, or the \<open>TypeError\<close> of a property read on
  \<open>null\<close> or \<open>undefined\<close>. A function that can throw returns \<open>error + 'a\<close>.
\<close>

datatype error = Error jsstring | TypeError

section \<open>Entities\<close>

text \<open>
  The \<open>Attachment\<close> and \<open>Message\<close> entities, with the fields the sources read or write.
  The columns \<open>uti\<close> and \<open>mimeType\<close> may be null (the sources test them before use);
  a date is its time value in milliseconds since the epoch, or absent. The field
  \<open>universalText\<close> is the result of the method call \<open>message.universalText(false)\<close>.
\<close>

record Attachment =
  attachmentGuid :: jsstring
  uti :: "jsstring option"
  mimeType :: "jsstring option"
  filePath :: jsstring
  transferName :: jsstring

record Message =
  guid :: jsstring
  dateDelivered :: "int option"
  dateRead :: "int option"
  universalText :: "jsstring option"
  attachments :: "Attachment list"

section \<open>The dedup cache key\<close>

text \<open>
  \<^verbatim>\<open>getCacheName\<close>: \<open>delivered\<close> and \<open>read\<close> are the time values of the two dates, 0 when
  the date is absent; the key is \<open>guid:delivered:read\<close>.
\<close>

definition getCacheName :: "Message \<Rightarrow> jsstring" where
  "getCacheName message =
     (let delivered = (case dateDelivered message of Some d \<Rightarrow> d | None \<Rightarrow> 0);
          read = (case dateRead message of Some d \<Rightarrow> d | None \<Rightarrow> 0)
      in guid message @ js '':'' @ Number_toString delivered @ js '':'' @ Number_toString read)"

section \<open>Outgoing sends (\<^verbatim>\<open>MessageInterface\<close>)\<close>

text \<open>
  Modelled from the spec: the \<^verbatim>\<open>MessagePromise\<close> class and the outgoing message manager
  are not among the sources. A Send Request is the record of the fields its constructor
  is given (chat identity, expected text, attachment flag, \<open>sentAt\<close>, subject and
  correlation token), and enqueueing puts the request behind the pending ones, the queue
  being scanned in insertion order.
\<close>

record MessagePromise =
  chatGuid :: jsstring
  promiseText :: "jsstring option"
  isAttachment :: bool
  sentAt :: int
  subject :: "jsstring option"
  tempGuid :: "jsstring option"

record server =
  messageManager :: "MessagePromise list"

definition messageManager_add :: "MessagePromise \<Rightarrow> server \<Rightarrow> server" where
  "messageManager_add awaiter s = s\<lparr>messageManager := messageManager s @ [awaiter]\<rparr>"

text \<open>
  What a send reads from outside \<^verbatim>\<open>MessageInterface\<close>. The clock \<open>now\<close> is the value of
  \<^verbatim>\<open>new Date().getTime()\<close>, an integer number of milliseconds, for which
  \<^verbatim>\<open>new Date(v).getTime()\<close> is \<open>v\<close> again. Each collaborator is given by what its call
  does: \<open>Inl e\<close> or \<open>Some e\<close> (where nothing is returned) when it throws \<open>e\<close>. The
  repository's \<open>getMessage\<close> is indexed by the number of fetches made before it. The two
  reaction tables, the invisible media character and \<^verbatim>\<open>isNotEmpty\<close> are declared in files
  that are not among the sources and are taken as they come. A table is given by its
  property read \<^verbatim>\<open>table[name]\<close>: \<open>None\<close> where the read yields \<open>undefined\<close>, and
  otherwise the text the value read has in a template literal, be it a phrase of the
  table or a member the object inherits. The calls to \<^verbatim>\<open>Server().log\<close> write nothing that
  a send reads back and are left out.
\<close>

typedecl AttributedBody

record SendResult =
  "identifier" :: "jsstring option"

record env =
  now :: int
  checkPrivateApiStatus :: "error option"
  sendMessageHandler :: "jsstring \<Rightarrow> jsstring \<Rightarrow> jsstring option \<Rightarrow> error option"
  awaiterPromise :: "MessagePromise \<Rightarrow> error + Message option"
  privateApiSendMessage ::
    "jsstring \<Rightarrow> jsstring option \<Rightarrow> AttributedBody option \<Rightarrow> jsstring option \<Rightarrow>
     jsstring option \<Rightarrow> jsstring option \<Rightarrow> int \<Rightarrow> error + SendResult option"
  privateApiSendReaction ::
    "jsstring \<Rightarrow> jsstring \<Rightarrow> jsstring \<Rightarrow> int \<Rightarrow> error + SendResult option"
  getMessage :: "jsstring \<Rightarrow> nat \<Rightarrow> error + Message option"
  copyAttachment :: "jsstring \<Rightarrow> jsstring option \<Rightarrow> error + jsstring"
  startMessages :: "error option"
  reactionTextMap :: "jsstring \<rightharpoonup> jsstring"
  negativeReactionTextMap :: "jsstring \<rightharpoonup> jsstring"
  invisibleMediaChar :: jsstring
  isNotEmpty :: "Attachment list \<Rightarrow> bool"

text \<open>
  A parameter with a default value: the default stands in for \<open>undefined\<close> only, and
  \<open>null\<close> is passed on as it is. In a template literal \<open>null\<close> and \<open>undefined\<close>
  print as those words.
\<close>

datatype 'a optional = Undefined | Null | Given 'a

definition template_optional :: "jsstring optional \<Rightarrow> jsstring" where
  "template_optional v =
     (case v of Undefined \<Rightarrow> js ''undefined'' | Null \<Rightarrow> js ''null'' | Given t \<Rightarrow> t)"

text \<open>\<^verbatim>\<open>result?.identifier\<close>, when it is truthy.\<close>

definition resultIdentifier :: "SendResult option \<Rightarrow> jsstring option" where
  "resultIdentifier result =
     (case result of
        None \<Rightarrow> None
      | Some r \<Rightarrow> if truthy (identifier r) then identifier r else None)"

text \<open>
  The re-fetch loop: \<^verbatim>\<open>while (!retMessage) { tryCount += 1; if (tryCount >= limit) break;
  await waitMs(..); retMessage = await getMessage(..) }\<close>.
\<close>

function refetch ::
  "env \<Rightarrow> jsstring \<Rightarrow> nat \<Rightarrow> nat \<Rightarrow> Message option \<Rightarrow> error + Message option" where
  "refetch e ident limit tryCount retMessage =
     (case retMessage of
        Some m \<Rightarrow> Inr (Some m)
      | None \<Rightarrow>
          if tryCount + 1 \<ge> limit then Inr None
          else (case getMessage e ident (tryCount + 1) of
                  Inl ex \<Rightarrow> Inl ex
                | Inr r \<Rightarrow> refetch e ident limit (tryCount + 1) r))"
  by pat_completeness auto
termination
  by (relation "measure (\<lambda>(e, ident, limit, tryCount, retMessage). limit - tryCount)") auto

declare refetch.simps [simp del]

text \<open>The first fetch by identifier followed by the loop.\<close>

definition fetchByIdentifier :: "env \<Rightarrow> jsstring \<Rightarrow> nat \<Rightarrow> error + Message option" where
  "fetchByIdentifier e ident limit =
     (case getMessage e ident 0 of
        Inl ex \<Rightarrow> Inl ex
      | Inr retMessage \<Rightarrow> refetch e ident limit 0 retMessage)"

definition sendMessagePrivateApi ::
  "env \<Rightarrow> jsstring \<Rightarrow> jsstring option \<Rightarrow> AttributedBody option \<Rightarrow> jsstring option \<Rightarrow>
   jsstring option \<Rightarrow> jsstring option \<Rightarrow> int option \<Rightarrow> server \<Rightarrow> (error + Message) \<times> server" where
  "sendMessagePrivateApi e chatGuid' message attributedBody subject' effectId
       selectedMessageGuid partIndex s =
     (case checkPrivateApiStatus e of
        Some ex \<Rightarrow> (Inl ex, s)
      | None \<Rightarrow>
          (case privateApiSendMessage e chatGuid' message attributedBody subject' effectId
                  selectedMessageGuid (case partIndex of Some i \<Rightarrow> i | None \<Rightarrow> 0) of
             Inl ex \<Rightarrow> (Inl ex, s)
           | Inr result \<Rightarrow>
               (case resultIdentifier result of
                  None \<Rightarrow> (Inl (Error (js ''Failed to send message!'')), s)
                | Some ident \<Rightarrow>
                    (case fetchByIdentifier e ident 40 of
                       Inl ex \<Rightarrow> (Inl ex, s)
                     | Inr None \<Rightarrow>
                         (Inl (Error (js
                            ''Failed to send message! Message not found after 5 seconds!'')), s)
                     | Inr (Some retMessage) \<Rightarrow> (Inr retMessage, s)))))"

definition sendMessageSync ::
  "env \<Rightarrow> jsstring option \<Rightarrow> jsstring option \<Rightarrow> jsstring optional \<Rightarrow> AttributedBody option \<Rightarrow>
   jsstring option \<Rightarrow> jsstring option \<Rightarrow> jsstring option \<Rightarrow> jsstring option \<Rightarrow> int option \<Rightarrow>
   server \<Rightarrow> (error + Message option) \<times> server" where
  "sendMessageSync e chatGuid' message method' attributedBody subject' effectId
       selectedMessageGuid tempGuid' partIndex s =
     (case chatGuid' of
        None \<Rightarrow> (Inl (Error (js ''No chat GUID provided'')), s)
      | Some cg \<Rightarrow>
          if cg = [] then (Inl (Error (js ''No chat GUID provided'')), s)
          else
            (let method = (case method' of Undefined \<Rightarrow> Given (js ''apple-script'') | v \<Rightarrow> v);
                 now' = now e - 10000;
                 awaiter = \<lparr>chatGuid = cg, promiseText = message, isAttachment = False,
                            sentAt = now', subject = subject', tempGuid = tempGuid'\<rparr>;
                 s1 = messageManager_add awaiter s
             in if method = Given (js ''apple-script'') then
                  (case sendMessageHandler e cg (case message of Some t \<Rightarrow> t | None \<Rightarrow> []) None of
                     Some ex \<Rightarrow> (Inl ex, s1)
                   | None \<Rightarrow> (awaiterPromise e awaiter, s1))
                else if method = Given (js ''private-api'') then
                  (case sendMessagePrivateApi e cg message attributedBody subject' effectId
                          selectedMessageGuid
                          (Some (case partIndex of Some i \<Rightarrow> i | None \<Rightarrow> 0)) s1 of
                     (Inl ex, s2) \<Rightarrow> (Inl ex, s2)
                   | (Inr sentMessage, s2) \<Rightarrow> (Inr (Some sentMessage), s2))
                else (Inl (Error (js ''Invalid send method: '' @ template_optional method)), s1)))"

text \<open>Lines 123 to 127: the name the awaiter expects, an mp3 being sent as a caf.\<close>

definition awaiterName :: "jsstring option \<Rightarrow> jsstring option" where
  "awaiterName attachmentName =
     (case attachmentName of
        None \<Rightarrow> None
      | Some aName \<Rightarrow>
          if endsWith aName (js ''.mp3'')
          then Some (substring0 aName (length aName - 4) @ js ''.caf'')
          else Some aName)"

definition sendAttachmentSync ::
  "env \<Rightarrow> jsstring option \<Rightarrow> jsstring \<Rightarrow> jsstring option \<Rightarrow> jsstring option \<Rightarrow>
   server \<Rightarrow> (error + Message option) \<times> server" where
  "sendAttachmentSync e chatGuid' attachmentPath attachmentName attachmentGuid' s =
     (case chatGuid' of
        None \<Rightarrow> (Inl (Error (js ''No chat GUID provided'')), s)
      | Some cg \<Rightarrow>
          if cg = [] then (Inl (Error (js ''No chat GUID provided'')), s)
          else
            (case copyAttachment e attachmentPath attachmentName of
               Inl ex \<Rightarrow> (Inl ex, s)
             | Inr newPath \<Rightarrow>
                 (case startMessages e of
                    Some ex \<Rightarrow> (Inl ex, s)
                  | None \<Rightarrow>
                      (let aName = awaiterName attachmentName;
                           now' = now e - 10000;
                           awaiter = \<lparr>chatGuid = cg, promiseText = aName, isAttachment = True,
                                      sentAt = now', subject = None, tempGuid = attachmentGuid'\<rparr>;
                           s1 = messageManager_add awaiter s
                       in (case sendMessageHandler e cg [] (Some newPath) of
                             Some ex \<Rightarrow> (Inl ex, s1)
                           | None \<Rightarrow> (awaiterPromise e awaiter, s1))))))"

text \<open>
  Lines 275 to 301 of \<^verbatim>\<open>sendReaction\<close>: the text the reaction will have in the database.
  Code units 8220 and 8221 are the opening and closing curly quotes. Reading
  \<^verbatim>\<open>mimeType.startsWith\<close> throws a \<open>TypeError\<close> when there is no first attachment or its
  MIME type is null.
\<close>

definition reactionMessageText :: "env \<Rightarrow> Message \<Rightarrow> jsstring \<Rightarrow> error + jsstring" where
  "reactionMessageText e message reaction =
     (let prefix' = (if startsWith reaction (js ''-'')
                     then negativeReactionTextMap e reaction
                     else reactionTextMap e reaction);
          text = (case universalText message of Some t \<Rightarrow> t | None \<Rightarrow> []);
          isOnlyMedia = (length text = 1 \<and> text = invisibleMediaChar e);
          msg =
            (if isOnlyMedia \<and> isNotEmpty e (attachments message) then
               (case attachments message of
                  [] \<Rightarrow> Inl TypeError
                | a # rest \<Rightarrow>
                    (case mimeType a of
                       None \<Rightarrow> Inl TypeError
                     | Some mt \<Rightarrow>
                         if startsWith mt (js ''image'') then Inr (js ''an image'')
                         else if startsWith mt (js ''video'') then Inr (js ''a movie'')
                         else Inr (js ''an attachment'')))
             else Inr ([8220] @ text @ [8221]))
      in (case msg of
            Inl ex \<Rightarrow> Inl ex
          | Inr m \<Rightarrow> Inr (template_undefined prefix' @ js '' '' @ m)))"

definition sendReaction ::
  "env \<Rightarrow> jsstring \<Rightarrow> Message \<Rightarrow> jsstring \<Rightarrow> jsstring option \<Rightarrow> int option \<Rightarrow>
   server \<Rightarrow> (error + Message) \<times> server" where
  "sendReaction e chatGuid' message reaction tempGuid' partIndex s =
     (case checkPrivateApiStatus e of
        Some ex \<Rightarrow> (Inl ex, s)
      | None \<Rightarrow>
          (case reactionMessageText e message reaction of
             Inl ex \<Rightarrow> (Inl ex, s)
           | Inr messageText \<Rightarrow>
               (let now' = now e - 10000;
                    awaiter = \<lparr>chatGuid = chatGuid', promiseText = Some messageText,
                               isAttachment = False, sentAt = now', subject = None,
                               tempGuid = tempGuid'\<rparr>;
                    s1 = messageManager_add awaiter s
                in (case privateApiSendReaction e chatGuid' (guid message) reaction
                           (case partIndex of Some i \<Rightarrow> i | None \<Rightarrow> 0) of
                      Inl ex \<Rightarrow> (Inl ex, s1)
                    | Inr result \<Rightarrow>
                        (case resultIdentifier result of
                           None \<Rightarrow>
                             (Inl (Error (js
                                ''Failed to send reaction! No message GUID returned.'')), s1)
                         | Some ident \<Rightarrow>
                             (case fetchByIdentifier e ident 20 of
                                Inl ex \<Rightarrow> (Inl ex, s1)
                              | Inr (Some retMessage) \<Rightarrow> (Inr retMessage, s1)
                              | Inr None \<Rightarrow>
                                  (case awaiterPromise e awaiter of
                                     Inl ex \<Rightarrow> (Inl ex, s1)
                                   | Inr None \<Rightarrow>
                                       (Inl (Error (js
                                          ''Failed to send reaction! Message not found after 5 seconds!'')),
                                        s1)
                                   | Inr (Some retMessage) \<Rightarrow> (Inr retMessage, s1))))))))"

section \<open>Starting the services (\<^verbatim>\<open>BlueBubblesServer\<close>)\<close>

text \<open>
  The server object, with the members \<^verbatim>\<open>start\<close> and \<^verbatim>\<open>startChatListener\<close> touch. A member that
  \<^verbatim>\<open>setup\<close> assigns inside a \<^verbatim>\<open>try\<close> may still be null; the alert service is
  constructed outside any \<^verbatim>\<open>try\<close>, so it exists whenever \<^verbatim>\<open>start\<close> gets past \<^verbatim>\<open>setup\<close>, and
  is given by the alerts it has created. A service is given by whether it has been started,
  the queue service and a listener also by the events a handler was registered for. The
  poll frequency constant is declared in a file that is not among the sources and is a
  parameter.
\<close>

typedecl Connection

record MessageRepository =
  db :: "Connection option"

record QueueService =
  started :: bool
  queueEvents :: "jsstring list"

record Listener =
  listenerClass :: jsstring
  pollFrequency :: nat
  listenerEvents :: "jsstring list"

record BlueBubblesServer =
  iMessageRepo :: "MessageRepository option"
  socketService :: "bool option"
  fcmService :: "bool option"
  queueService :: "QueueService option"
  alerts :: "(jsstring \<times> jsstring) list"
  logs :: "jsstring list"
  chatListeners :: "Listener list"
  ipcHandlers :: "jsstring list"

text \<open>\<^verbatim>\<open>log(message)\<close> without a type prints the message and sends it to the window.\<close>

definition log :: "jsstring \<Rightarrow> BlueBubblesServer \<Rightarrow> BlueBubblesServer" where
  "log message s = s\<lparr>logs := logs s @ [message]\<rparr>"

definition alertService_create ::
  "jsstring \<Rightarrow> jsstring \<Rightarrow> BlueBubblesServer \<Rightarrow> BlueBubblesServer" where
  "alertService_create type message s = s\<lparr>alerts := alerts s @ [(type, message)]\<rparr>"

text \<open>The text of the notice; code unit 39 is the apostrophe.\<close>

definition permissionsNotice :: jsstring where
  "permissionsNotice =
     js ''Restart the app once '' @ [39] @ js ''Full Disk Access'' @ [39] @ js '' and '' @ [39]
       @ js ''Accessibility'' @ [39] @ js '' permissions are enabled''"

definition startChatListener :: "nat \<Rightarrow> BlueBubblesServer \<Rightarrow> error + BlueBubblesServer" where
  "startChatListener DEFAULT_POLL_FREQUENCY_MS s =
     (case iMessageRepo s of
        None \<Rightarrow> Inl TypeError
      | Some repo \<Rightarrow>
          (case db repo of
             None \<Rightarrow>
               Inr (alertService_create (js ''info'') permissionsNotice s)
           | Some handle \<Rightarrow>
               (case queueService s of
                  None \<Rightarrow> Inl TypeError
                | Some q \<Rightarrow>
                    Inr (s\<lparr>queueService :=
                             Some (q\<lparr>started := True,
                                     queueEvents := queueEvents q
                                       @ [js ''message-timeout'', js ''message-match'']\<rparr>),
                           chatListeners := chatListeners s @
                             [\<lparr>listenerClass = js ''MessageListener'',
                               pollFrequency = DEFAULT_POLL_FREQUENCY_MS,
                               listenerEvents = [js ''new-entry'']\<rparr>,
                              \<lparr>listenerClass = js ''MessageUpdateListener'',
                               pollFrequency = DEFAULT_POLL_FREQUENCY_MS,
                               listenerEvents = [js ''updated-entry'']\<rparr>,
                              \<lparr>listenerClass = js ''GroupChangeListener'',
                               pollFrequency = DEFAULT_POLL_FREQUENCY_MS * 2,
                               listenerEvents =
                                 [js ''name-change'', js ''participant-removed'',
                                  js ''participant-added'', js ''participant-left'']\<rparr>]\<rparr>))))"

definition startIpcListener :: "BlueBubblesServer \<Rightarrow> BlueBubblesServer" where
  "startIpcListener s =
     s\<lparr>ipcHandlers := ipcHandlers s @
        [js ''set-config'', js ''get-config'', js ''get-message-count'',
         js ''get-chat-image-count'', js ''get-group-message-counts'',
         js ''get-individual-message-counts'', js ''set-fcm-server'', js ''set-fcm-client'',
         js ''get-devices'', js ''get-fcm-server'', js ''get-fcm-client'',
         js ''complete-tutorial'', js ''get-alerts'', js ''mark-alert-as-read'']\<rparr>"

text \<open>
  \<^verbatim>\<open>start\<close> from the return of \<^verbatim>\<open>setup\<close> up to the call of \<^verbatim>\<open>connectToNgrok\<close>, which
  catches what it throws.
\<close>

definition start :: "nat \<Rightarrow> BlueBubblesServer \<Rightarrow> error + BlueBubblesServer" where
  "start DEFAULT_POLL_FREQUENCY_MS s =
     (let s1 = log (js ''Starting socket service...'') s in
      case socketService s1 of
        None \<Rightarrow> Inl TypeError
      | Some a \<Rightarrow>
          (case fcmService s1 of
             None \<Rightarrow> Inl TypeError
           | Some b \<Rightarrow>
               (let s2 = log (js ''Starting chat listener...'')
                           (s1\<lparr>socketService := Some True, fcmService := Some True\<rparr>) in
                case startChatListener DEFAULT_POLL_FREQUENCY_MS s2 of
                  Inl ex \<Rightarrow> Inl ex
                | Inr s3 \<Rightarrow> Inr (log (js ''Connecting to Ngrok...'') (startIpcListener s3)))))"

section \<open>The helper channel (\<^verbatim>\<open>BlueBubblesHelperService\<close>)\<close>

text \<open>
  A parsed JSON value; numbers are never inspected and stay abstract. Reading a property of
  \<open>null\<close> throws; an object has the properties of its list, and the other values have
  neither of the two properties read here. \<^verbatim>\<open>JSON.parse\<close> is a parameter of the handler,
  which is given each chunk of text the socket delivers, whole.
  The service is given by the notifications it has emitted: the type and the \<open>display\<close>
  and \<open>guid\<close> members of the payload, \<open>guid\<close> being \<open>None\<close> when the event has none.
  The handler's calls to \<^verbatim>\<open>Server().log\<close> emit nothing and are left out.
\<close>

datatype 'n json =
    JNull
  | JBool bool
  | JNumber 'n
  | JString jsstring
  | JArray "'n json list"
  | JObject "(jsstring \<times> 'n json) list"





section \<open>\<^verbatim>\<open>AttributedBodyTransformer\<close>\<close>

text \<open>
  An element of a decoded group's \<open>values\<close>: a falsy value, an \<^verbatim>\<open>NSAttributedString\<close>
  with its own enumerable properties, or any other value. The unarchiver's
  \<^verbatim>\<open>decodeAll\<close> and the helper \<^verbatim>\<open>isEmpty\<close> are not among the sources and are parameters;
  a decoded group is the array \<open>values\<close>, or \<open>None\<close> when there is no such array to
  filter. The log holds, for each entry, the text before the interpolated message, the
  error whose message is interpolated, and the log type.
\<close>

datatype 'v TypedValue =
    Falsy
  | NSAttributedString "jsstring \<rightharpoonup> 'v"
  | OtherValue

fun isAttributedString :: "'v TypedValue \<Rightarrow> bool" where
  "isAttributedString (NSAttributedString ps) = True"
| "isAttributedString v = False"

fun renameValue :: "'v TypedValue \<Rightarrow> 'v TypedValue" where
  "renameValue (NSAttributedString ps) =
     NSAttributedString
       (if js ''value'' \<in> dom ps
        then (ps(js ''string'' := ps (js ''value''))) (js ''value'' := None)
        else ps)"
| "renameValue v = v"

record ('d, 'v) Unarchiver =
  decodeAll :: "'d \<Rightarrow> error + 'v TypedValue list option list"
  isEmpty :: "'v TypedValue list option list \<Rightarrow> bool"

text \<open>The body of the \<^verbatim>\<open>try\<close> block of \<^verbatim>\<open>from\<close>.\<close>

definition decodeAttributedBodies ::
  "('d, 'v) Unarchiver \<Rightarrow> 'd \<Rightarrow> error + 'v TypedValue list option" where
  "decodeAttributedBodies u dbValue =
     (case decodeAll u dbValue of
        Inl ex \<Rightarrow> Inl ex
      | Inr attributedBody \<Rightarrow>
          if isEmpty u attributedBody then Inr None
          else
            (case attributedBody of
               [] \<Rightarrow> Inl TypeError
             | first # rest \<Rightarrow>
                 (case first of
                    None \<Rightarrow> Inl TypeError
                  | Some vals \<Rightarrow> Inr (Some (map renameValue (filter isAttributedString vals))))))"

definition AttributedBodyTransformer_from ::
  "('d, 'v) Unarchiver \<Rightarrow> 'd \<Rightarrow> (jsstring \<times> error \<times> jsstring) list \<Rightarrow>
   (error + 'v TypedValue list option) \<times> (jsstring \<times> error \<times> jsstring) list" where
  "AttributedBodyTransformer_from u dbValue serverLog =
     (case decodeAttributedBodies u dbValue of
        Inr attributedBodies \<Rightarrow> (Inr attributedBodies, serverLog)
      | Inl ex \<Rightarrow>
          (Inr None,
           serverLog @ [(js ''Failed to deserialize attributedBody: '', ex, js ''debug'')]))"

definition AttributedBodyTransformer_to :: "'a \<Rightarrow> 'd option" where
  "AttributedBodyTransformer_to v = None"

section \<open>Attachment conversion\<close>

text \<open>
  The file system collaborators of the three converters: \<open>Some e\<close> when a conversion
  throws \<open>e\<close>. The helper \<^verbatim>\<open>isNotEmpty\<close> is not among the sources and is a parameter, here
  at the type of a MIME type. A converter returns the new path or null, and the
  attachment as it leaves it; \<^verbatim>\<open>convertImage\<close> and \<^verbatim>\<open>convertVideo\<close> throw a \<open>TypeError\<close>
  where \<^verbatim>\<open>mimeType.startsWith\<close> is reached with a null MIME type. The flag \<open>failed\<close>
  is set by a conversion that throws, attempted only when the converted file does not
  exist yet; the calls to \<^verbatim>\<open>Server().log\<close> touch no attachment and are left out.
\<close>

record FileSystem =
  convertDir :: jsstring
  existsSync :: "jsstring \<Rightarrow> bool"
  convertCafToMp3 :: "Attachment \<Rightarrow> jsstring \<Rightarrow> error option"
  convertToJpg :: "jsstring \<Rightarrow> Attachment \<Rightarrow> jsstring \<Rightarrow> error option"
  convertToMp4 :: "Attachment \<Rightarrow> jsstring \<Rightarrow> error option"
  isNotEmptyString :: "jsstring option \<Rightarrow> bool"

definition convertAudio :: "FileSystem \<Rightarrow> Attachment \<Rightarrow> jsstring option \<times> Attachment" where
  "convertAudio fs attachment =
     (let newPath = convertDir fs @ js ''/'' @ attachmentGuid attachment @ js ''.mp3'';
          ext = (if uti attachment = Some (js ''com.apple.coreaudio-format'')
                 then Some (js ''caf'') else None);
          failed = (\<not> existsSync fs newPath \<and> ext = Some (js ''caf'')
                    \<and> convertCafToMp3 fs attachment newPath \<noteq> None)
      in case ext of
           Some x \<Rightarrow>
             if \<not> failed then
               (Some newPath,
                attachment\<lparr>mimeType := Some (js ''audio/mp3''), filePath := newPath,
                  transferName := replace (basename newPath) (js ''.'' @ x) (js ''.mp3'')\<rparr>)
             else (None, attachment)
         | None \<Rightarrow> (None, attachment))"

definition convertImage ::
  "FileSystem \<Rightarrow> Attachment \<Rightarrow> (error + jsstring option) \<times> Attachment" where
  "convertImage fs attachment =
     (let newPath = convertDir fs @ js ''/'' @ attachmentGuid attachment @ js ''.jpg'';
          ext = (if isNotEmptyString fs (mimeType attachment) then
                   (case mimeType attachment of
                      None \<Rightarrow> Inl TypeError
                    | Some mt \<Rightarrow>
                        Inr (if startsWith mt (js ''image/heic'') then Some (js ''heic'') else None))
                 else Inr None)
      in case ext of
           Inl ex \<Rightarrow> (Inl ex, attachment)
         | Inr None \<Rightarrow> (Inr None, attachment)
         | Inr (Some x) \<Rightarrow>
             (let failed = (\<not> existsSync fs newPath \<and> x = js ''heic''
                            \<and> convertToJpg fs x attachment newPath \<noteq> None)
              in if \<not> failed then
                   (Inr (Some newPath),
                    attachment\<lparr>mimeType := Some (js ''image/jpg''), filePath := newPath,
                      transferName := replace (basename newPath) (js ''.'' @ x) (js ''.jpg'')\<rparr>)
                 else (Inr None, attachment)))"

definition convertVideo ::
  "FileSystem \<Rightarrow> Attachment \<Rightarrow> (error + jsstring option) \<times> Attachment" where
  "convertVideo fs attachment =
     (let newPath = convertDir fs @ js ''/'' @ attachmentGuid attachment @ js ''.mp4'';
          ext = (if isNotEmptyString fs (mimeType attachment) then
                   (if uti attachment = Some (js ''com.apple.quicktime-movie'')
                    then Inr (Some (js ''mov''))
                    else (case mimeType attachment of
                            None \<Rightarrow> Inl TypeError
                          | Some mt \<Rightarrow>
                              Inr (if startsWith mt (js ''video/quicktime'')
                                   then Some (js ''mov'') else None)))
                 else Inr None)
      in case ext of
           Inl ex \<Rightarrow> (Inl ex, attachment)
         | Inr None \<Rightarrow> (Inr None, attachment)
         | Inr (Some x) \<Rightarrow>
             (let failed = (\<not> existsSync fs newPath \<and> x = js ''mov''
                            \<and> convertToMp4 fs attachment newPath \<noteq> None)
              in if \<not> failed then
                   (Inr (Some newPath),
                    attachment\<lparr>mimeType := Some (js ''video/mp4''), filePath := newPath,
                      transferName := replace (basename newPath) (js ''.'' @ x) (js ''.mp4'')\<rparr>)
                 else (Inr None, attachment)))"

section \<open>Sample collaborators\<close>

text \<open>Concrete collaborators at which the theorems below are instantiated.\<close>

definition sample_env :: env where
  "sample_env =
     \<lparr>now = 1700000010000,
      checkPrivateApiStatus = None,
      sendMessageHandler = (\<lambda>cg t p. None),
      awaiterPromise = (\<lambda>r. Inr None),
      privateApiSendMessage = (\<lambda>cg m ab sj ef sel pi. Inr None),
      privateApiSendReaction = (\<lambda>cg g r pi. Inr None),
      getMessage = (\<lambda>ident k. Inr None),
      copyAttachment = (\<lambda>p n. Inr p),
      startMessages = None,
      reactionTextMap = [js ''love'' \<mapsto> js ''Loved''],
      negativeReactionTextMap = [js ''-love'' \<mapsto> js ''Removed a heart from''],
      invisibleMediaChar = [65532],
      isNotEmpty = (\<lambda>xs. xs \<noteq> [])\<rparr>"



definition sample_fs :: FileSystem where
  "sample_fs =
     \<lparr>convertDir = js ''/convert'',
      existsSync = (\<lambda>p. False),
      convertCafToMp3 = (\<lambda>a p. None),
      convertToJpg = (\<lambda>x a p. Some (Error (js ''conversion failed''))),
      convertToMp4 = (\<lambda>a p. None),
      isNotEmptyString = truthy\<rparr>"

definition sample_unarchiver :: "(8 word list, jsstring) Unarchiver" where
  "sample_unarchiver =
     \<lparr>decodeAll = (\<lambda>d. if d = [] then Inl (Error (js ''Unexpected end of data''))
                        else Inr [Some [Falsy,
                                        NSAttributedString [js ''value'' \<mapsto> js ''hi''],
                                        OtherValue]]),
      isEmpty = (\<lambda>groups. groups = [])\<rparr>"

section \<open>Decimal rendering is injective\<close>

lemma digit_char_value: "d < 10 \<Longrightarrow> unat (digit_char d) - 48 = d"
  by (simp add: digit_char_def unat_of_nat del: of_nat_add)

lemma digit_char_not_minus: "d < 10 \<Longrightarrow> digit_char d \<noteq> 45"
proof
  assume d: "d < 10" and e: "digit_char d = 45"
  from e have "unat (digit_char d) = 45" by simp
  with d show False by (simp add: digit_char_def unat_of_nat del: of_nat_add)
qed

lemma digits_value_snoc:
  "digits_value (cs @ [c]) = 10 * digits_value cs + (unat c - 48)"
  by (simp add: digits_value_def)

lemma digits_value_nat_toString: "digits_value (nat_toString n) = n"
proof (induction n rule: nat_toString.induct)
  case (1 n)
  show ?case
  proof (cases "n < 10")
    case True
    then show ?thesis
      by (simp add: nat_toString.simps [of n] digits_value_def digit_char_value)
  next
    case False
    with 1 show ?thesis
      by (simp add: nat_toString.simps [of n] digits_value_snoc digit_char_value)
  qed
qed

lemma nat_toString_hd: "\<exists>c r. nat_toString n = c # r \<and> c \<noteq> 45"
proof (induction n rule: nat_toString.induct)
  case (1 n)
  show ?case
  proof (cases "n < 10")
    case True
    then show ?thesis by (simp add: nat_toString.simps [of n] digit_char_not_minus)
  next
    case False
    with 1 obtain c r where "nat_toString (n div 10) = c # r" "c \<noteq> 45" by auto
    with False show ?thesis by (simp add: nat_toString.simps [of n])
  qed
qed

lemma decimal_value_Number_toString: "decimal_value (Number_toString i) = i"
proof (cases "i < 0")
  case True
  then show ?thesis
    by (simp add: Number_toString_def decimal_value_def js_def digits_value_nat_toString)
next
  case False
  obtain c r where cr: "nat_toString (nat i) = c # r" "c \<noteq> 45"
    using nat_toString_hd by blast
  have "digits_value (c # r) = nat i"
    using digits_value_nat_toString [of "nat i"] cr by simp
  with False cr show ?thesis
    by (simp add: Number_toString_def decimal_value_def)
qed

lemma Number_toString_inj: "Number_toString i = Number_toString j \<Longrightarrow> i = j"
  by (metis decimal_value_Number_toString)

lemma Number_toString_0: "Number_toString 0 = js ''0''"
  by (simp add: Number_toString_def nat_toString.simps [of 0] digit_char_def js_def)

section \<open>Claims about the dedup cache key\<close>

text \<open>No decimal rendering holds the colon (code unit 58) that separates the parts of a key.\<close>

lemma digit_char_not_colon: "d < 10 \<Longrightarrow> digit_char d \<noteq> 58"
proof
  assume d: "d < 10" and e: "digit_char d = 58"
  from e have "unat (digit_char d) = 58" by simp
  with d show False by (simp add: digit_char_def unat_of_nat del: of_nat_add)
qed

lemma nat_toString_no_colon: "58 \<notin> set (nat_toString n)"
proof (induction n rule: nat_toString.induct)
  case (1 n)
  show ?case
  proof (cases "n < 10")
    case True
    then show ?thesis
      using digit_char_not_colon [of n] by (auto simp: nat_toString.simps [of n])
  next
    case False
    have "n mod 10 < 10" by simp
    then have "digit_char (n mod 10) \<noteq> 58" by (rule digit_char_not_colon)
    with False 1 show ?thesis by (auto simp: nat_toString.simps [of n])
  qed
qed

lemma Number_toString_no_colon: "58 \<notin> set (Number_toString i)"
  by (simp add: Number_toString_def js_def nat_toString_no_colon)

lemma takeWhile_colon: "(58 :: jschar) \<notin> set a \<Longrightarrow> takeWhile (\<lambda>c. c \<noteq> 58) (a @ 58 # b) = a"
  by (induction a) auto

lemma split_at_colon:
  assumes "a @ 58 # b = a' @ 58 # b'" and "(58 :: jschar) \<notin> set a" and "58 \<notin> set a'"
  shows "a = a'"
proof -
  have "takeWhile (\<lambda>c. c \<noteq> 58) (a @ 58 # b) = a"
    using assms(2) by (rule takeWhile_colon)
  moreover have "takeWhile (\<lambda>c. c \<noteq> 58) (a' @ 58 # b') = a'"
    using assms(3) by (rule takeWhile_colon)
  ultimately show ?thesis using assms(1) by simp
qed

text \<open>
  C1, as stated, at a concrete row: a row observed first with no delivery date and then
  with the delivery date populated by the time value 0 (the epoch) gets the same key both
  times, because the absent date is encoded as 0 as well.
\<close>

theorem getCacheName_epoch_collision:
  "getCacheName \<lparr>guid = js ''A1'', dateDelivered = Some 0, dateRead = None,
                  universalText = None, attachments = []\<rparr>
   = getCacheName \<lparr>guid = js ''A1'', dateDelivered = None, dateRead = None,
                    universalText = None, attachments = []\<rparr>"
  by (simp add: getCacheName_def)

text \<open>
  C1 (amended): the key is \<open>guid:delivered:read\<close> with an absent date encoded as 0. Two
  observations of a row (the same guid) get the same key when the delivery date and the
  read date are unchanged, and distinct keys when the delivery date was absent and is now
  populated with a time value other than 0, whatever the two read dates are.
\<close>

theorem getCacheName_state_key:
  assumes "guid m' = guid m"
  shows "getCacheName m =
           guid m @ js '':'' @ Number_toString (case dateDelivered m of Some d \<Rightarrow> d | None \<Rightarrow> 0)
             @ js '':'' @ Number_toString (case dateRead m of Some d \<Rightarrow> d | None \<Rightarrow> 0)
         \<and> (dateDelivered m' = dateDelivered m \<and> dateRead m' = dateRead m
              \<longrightarrow> getCacheName m' = getCacheName m)
         \<and> (dateDelivered m = None \<and> dateDelivered m' = Some t \<and> t \<noteq> 0
              \<longrightarrow> getCacheName m' \<noteq> getCacheName m)"
proof (intro conjI impI)
  show "getCacheName m =
          guid m @ js '':'' @ Number_toString (case dateDelivered m of Some d \<Rightarrow> d | None \<Rightarrow> 0)
            @ js '':'' @ Number_toString (case dateRead m of Some d \<Rightarrow> d | None \<Rightarrow> 0)"
    by (simp add: getCacheName_def)
next
  assume "dateDelivered m' = dateDelivered m \<and> dateRead m' = dateRead m"
  with assms show "getCacheName m' = getCacheName m"
    by (simp add: getCacheName_def)
next
  assume h: "dateDelivered m = None \<and> dateDelivered m' = Some t \<and> t \<noteq> 0"
  let ?r = "Number_toString (case dateRead m of Some d \<Rightarrow> d | None \<Rightarrow> 0)"
  let ?r' = "Number_toString (case dateRead m' of Some d \<Rightarrow> d | None \<Rightarrow> 0)"
  show "getCacheName m' \<noteq> getCacheName m"
  proof
    assume "getCacheName m' = getCacheName m"
    with assms h have "Number_toString t @ 58 # ?r' = Number_toString 0 @ 58 # ?r"
      by (simp add: getCacheName_def js_def)
    then have "Number_toString t = Number_toString 0"
      by (rule split_at_colon) (rule Number_toString_no_colon)+
    then have "t = 0" by (rule Number_toString_inj)
    with h show False by simp
  qed
qed

theorem getCacheName_state_key_witness:
  "getCacheName \<lparr>guid = js ''A1'', dateDelivered = Some 1700000000000,
                  dateRead = Some 1700000005000,
                  universalText = Some (js ''hi''), attachments = []\<rparr>
   \<noteq> getCacheName \<lparr>guid = js ''A1'', dateDelivered = None, dateRead = None,
                    universalText = None, attachments = []\<rparr>"
  (is "getCacheName ?m' \<noteq> getCacheName ?m")
proof -
  have g: "guid ?m' = guid ?m"
    by simp
  have "dateDelivered ?m = None \<and> dateDelivered ?m' = Some 1700000000000
          \<and> (1700000000000::int) \<noteq> 0
        \<longrightarrow> getCacheName ?m' \<noteq> getCacheName ?m"
    using getCacheName_state_key [OF g, of 1700000000000] by blast
  then show ?thesis by simp
qed

section \<open>Claims about outgoing sends\<close>

lemma length_js: "length (js t) = length t"
  by (simp add: js_def)

lemma js_append: "js a @ js b = js (a @ b)"
  by (simp add: js_def)

lemma endsWith_append: "endsWith (b @ p) p"
  by (simp add: endsWith_def suffix_def)

lemma awaiterName_mp3: "awaiterName (Some (b @ js ''.mp3'')) = Some (b @ js ''.caf'')"
  by (simp add: awaiterName_def endsWith_append substring0_def length_js)

lemma awaiterName_other:
  "\<not> endsWith n (js ''.mp3'') \<Longrightarrow> awaiterName (Some n) = Some n"
  by (simp add: awaiterName_def)

lemma sendMessagePrivateApi_state:
  "snd (sendMessagePrivateApi e cg m ab sj ef sel pi s) = s"
  by (simp add: sendMessagePrivateApi_def split: option.splits sum.splits)

lemma sendMessageSync_queue:
  "messageManager (snd (sendMessageSync e chatGuid' message method' ab sj ef sel tg pi s))
     = (case chatGuid' of
          None \<Rightarrow> messageManager s
        | Some cg \<Rightarrow>
            if cg = [] then messageManager s
            else messageManager s @
              [\<lparr>chatGuid = cg, promiseText = message, isAttachment = False,
                sentAt = now e - 10000, subject = sj, tempGuid = tg\<rparr>])"
proof -
  have p: "\<And>s1 cg. snd (case sendMessagePrivateApi e cg message ab sj ef sel
               (Some (case pi of Some i \<Rightarrow> i | None \<Rightarrow> 0)) s1 of
             (Inl ex, s2) \<Rightarrow> (Inl ex, s2)
           | (Inr sentMessage, s2) \<Rightarrow> (Inr (Some sentMessage), s2)) = s1"
  proof -
    fix s1 cg
    obtain r s2 where r: "sendMessagePrivateApi e cg message ab sj ef sel
               (Some (case pi of Some i \<Rightarrow> i | None \<Rightarrow> 0)) s1 = (r, s2)"
      by (cases "sendMessagePrivateApi e cg message ab sj ef sel
               (Some (case pi of Some i \<Rightarrow> i | None \<Rightarrow> 0)) s1") auto
    then have "s2 = s1" using sendMessagePrivateApi_state [of e cg message ab sj ef sel
          "Some (case pi of Some i \<Rightarrow> i | None \<Rightarrow> 0)" s1] by simp
    with r show "snd (case sendMessagePrivateApi e cg message ab sj ef sel
               (Some (case pi of Some i \<Rightarrow> i | None \<Rightarrow> 0)) s1 of
             (Inl ex, s2) \<Rightarrow> (Inl ex, s2)
           | (Inr sentMessage, s2) \<Rightarrow> (Inr (Some sentMessage), s2)) = s1"
      by (cases r) simp_all
  qed
  show ?thesis
    by (simp add: sendMessageSync_def messageManager_add_def Let_def p split: option.splits)
qed

lemma sendAttachmentSync_queue:
  "messageManager (snd (sendAttachmentSync e chatGuid' path name ag s))
     = (case chatGuid' of
          None \<Rightarrow> messageManager s
        | Some cg \<Rightarrow>
            if cg \<noteq> [] \<and> \<not> isl (copyAttachment e path name) \<and> startMessages e = None
            then messageManager s @
              [\<lparr>chatGuid = cg, promiseText = awaiterName name, isAttachment = True,
                sentAt = now e - 10000, subject = None, tempGuid = ag\<rparr>]
            else messageManager s)"
  by (simp add: sendAttachmentSync_def messageManager_add_def Let_def
      split: option.splits sum.splits)

lemma sendReaction_queue:
  "messageManager (snd (sendReaction e cg m reaction tg pi s))
     = (case checkPrivateApiStatus e of
          Some ex \<Rightarrow> messageManager s
        | None \<Rightarrow>
            (case reactionMessageText e m reaction of
               Inl ex \<Rightarrow> messageManager s
             | Inr t \<Rightarrow> messageManager s @
                 [\<lparr>chatGuid = cg, promiseText = Some t, isAttachment = False,
                   sentAt = now e - 10000, subject = None, tempGuid = tg\<rparr>]))"
  by (simp add: sendReaction_def messageManager_add_def Let_def
      split: option.splits sum.splits)

text \<open>
  Where the first attachment of the target has a MIME type, the text of a reaction is the
  phrase of the table chosen by the leading \<open>-\<close>, a space, and the media phrase or the
  quoted text.
\<close>

lemma reactionMessageText_built:
  assumes "attachments m = [] \<or> (\<exists>a rest mt. attachments m = a # rest \<and> mimeType a = Some mt)"
    and "isNotEmpty e (attachments m) \<longrightarrow> attachments m \<noteq> []"
  shows "reactionMessageText e m reaction =
     Inr (template_undefined
            (if startsWith reaction (js ''-'') then negativeReactionTextMap e reaction
             else reactionTextMap e reaction)
          @ js '' ''
          @ (let text = (case universalText m of Some t \<Rightarrow> t | None \<Rightarrow> []) in
             if length text = 1 \<and> text = invisibleMediaChar e \<and> isNotEmpty e (attachments m) then
               (let mt = (case mimeType (hd (attachments m)) of Some x \<Rightarrow> x | None \<Rightarrow> []) in
                if startsWith mt (js ''image'') then js ''an image''
                else if startsWith mt (js ''video'') then js ''a movie''
                else js ''an attachment'')
             else [8220] @ text @ [8221]))"
  using assms
  by (auto simp: reactionMessageText_def Let_def split: list.splits option.splits)

text \<open>
  C2, at an attachment-only target whose first attachment has no MIME type: with the
  invisible media character as the text and one attachment whose \<open>mimeType\<close> is null,
  building the match text throws a \<open>TypeError\<close> and \<^verbatim>\<open>sendReaction\<close> fails before any
  request is enqueued, where the claim has the text end in \<open>an attachment\<close>.
\<close>

theorem sendReaction_null_mimeType:
  "reactionMessageText sample_env
     \<lparr>guid = js ''A1'', dateDelivered = None, dateRead = None, universalText = Some [65532],
       attachments = [\<lparr>attachmentGuid = js ''B1'', uti = None, mimeType = None,
                       filePath = js ''/tmp/f.bin'', transferName = js ''f.bin''\<rparr>]\<rparr>
     (js ''love'') = Inl TypeError
   \<and> sendReaction sample_env (js ''chat1'')
     \<lparr>guid = js ''A1'', dateDelivered = None, dateRead = None, universalText = Some [65532],
       attachments = [\<lparr>attachmentGuid = js ''B1'', uti = None, mimeType = None,
                       filePath = js ''/tmp/f.bin'', transferName = js ''f.bin''\<rparr>]\<rparr>
     (js ''love'') None None \<lparr>messageManager = []\<rparr> = (Inl TypeError, \<lparr>messageManager = []\<rparr>)"
  by (simp add: sendReaction_def reactionMessageText_def sample_env_def startsWith_def js_def)

text \<open>
  C3: an attachment send that gets as far as creating its request (the chat identity is
  truthy, the copy and the start of Messages do not throw) enqueues exactly one
  attachment request; its expected name is the caller's name with a final \<open>.mp3\<close>
  replaced by \<open>.caf\<close>, and the caller's name itself when that does not end in \<open>.mp3\<close>.
\<close>

theorem expected_transfer_name:
  assumes "truthy chatGuid'" and "copyAttachment e path name = Inr newPath"
    and "startMessages e = None"
  shows "\<exists>r. messageManager (snd (sendAttachmentSync e chatGuid' path name ag s))
               = messageManager s @ [r]
             \<and> isAttachment r
             \<and> (\<forall>b. name = Some (b @ js ''.mp3'') \<longrightarrow> promiseText r = Some (b @ js ''.caf''))
             \<and> (\<forall>n. name = Some n \<and> \<not> endsWith n (js ''.mp3'') \<longrightarrow> promiseText r = Some n)"
proof -
  from assms(1) obtain cg where cg: "chatGuid' = Some cg" "cg \<noteq> []"
    by (auto simp: truthy_def split: option.splits)
  let ?r = "\<lparr>chatGuid = cg, promiseText = awaiterName name, isAttachment = True,
             sentAt = now e - 10000, subject = None, tempGuid = ag\<rparr>"
  have "messageManager (snd (sendAttachmentSync e chatGuid' path name ag s))
          = messageManager s @ [?r]"
    using cg assms(2,3) by (simp add: sendAttachmentSync_queue)
  moreover have "\<forall>b. name = Some (b @ js ''.mp3'') \<longrightarrow> promiseText ?r = Some (b @ js ''.caf'')"
    by (simp add: awaiterName_mp3)
  moreover have "\<forall>n. name = Some n \<and> \<not> endsWith n (js ''.mp3'') \<longrightarrow> promiseText ?r = Some n"
    by (simp add: awaiterName_other)
  ultimately show ?thesis by (intro exI [of _ ?r]) simp
qed

theorem expected_transfer_name_witness:
  "\<exists>r. messageManager (snd (sendAttachmentSync sample_env (Some (js ''chat1''))
              (js ''/tmp/voice.mp3'') (Some (js ''voice.mp3'')) None \<lparr>messageManager = []\<rparr>)) = [r]
       \<and> promiseText r = Some (js ''voice.caf'')"
proof -
  have a: "truthy (Some (js ''chat1''))" by (simp add: truthy_def js_def)
  have b: "copyAttachment sample_env (js ''/tmp/voice.mp3'') (Some (js ''voice.mp3''))
             = Inr (js ''/tmp/voice.mp3'')"
    by (simp add: sample_env_def)
  have c: "startMessages sample_env = None" by (simp add: sample_env_def)
  have d: "js ''voice.mp3'' = js ''voice'' @ js ''.mp3''" by (simp add: js_def)
  have e: "js ''voice'' @ js ''.caf'' = js ''voice.caf''" by (simp add: js_def)
  from expected_transfer_name [OF a b c, of None "\<lparr>messageManager = []\<rparr>"]
  obtain r where r: "messageManager (snd (sendAttachmentSync sample_env (Some (js ''chat1''))
        (js ''/tmp/voice.mp3'') (Some (js ''voice.mp3'')) None \<lparr>messageManager = []\<rparr>)) = [r]"
    and m: "\<forall>b. Some (js ''voice.mp3'') = Some (b @ js ''.mp3'')
              \<longrightarrow> promiseText r = Some (b @ js ''.caf'')"
    by auto
  from m d have "promiseText r = Some (js ''voice'' @ js ''.caf'')" by blast
  with r e show ?thesis by auto
qed

text \<open>
  C4: each of \<^verbatim>\<open>sendMessageSync\<close>, \<^verbatim>\<open>sendAttachmentSync\<close> and \<^verbatim>\<open>sendReaction\<close> leaves the
  queue as it was or puts exactly one request behind it, whose \<open>sentAt\<close> is the clock
  reading minus 10000 milliseconds; and the request is created whenever the call gets past
  its guards.
\<close>

theorem sentAt_backdated:
  fixes e :: env and s :: server
    and chatGuid' message method' ab sj ef sel tg pi path name ag cg m reaction
  defines "created q \<equiv> (\<exists>r. q = messageManager s @ [r] \<and> sentAt r = now e - 10000)"
  defines "qSync \<equiv>
    messageManager (snd (sendMessageSync e chatGuid' message method' ab sj ef sel tg pi s))"
  defines "qAttachment \<equiv> messageManager (snd (sendAttachmentSync e chatGuid' path name ag s))"
  defines "qReaction \<equiv> messageManager (snd (sendReaction e cg m reaction tg pi s))"
  shows "(qSync = messageManager s \<or> created qSync)
       \<and> (qAttachment = messageManager s \<or> created qAttachment)
       \<and> (qReaction = messageManager s \<or> created qReaction)
       \<and> (truthy chatGuid' \<longrightarrow> created qSync)
       \<and> (truthy chatGuid' \<and> copyAttachment e path name = Inr newPath \<and> startMessages e = None
            \<longrightarrow> created qAttachment)
       \<and> (checkPrivateApiStatus e = None \<and> reactionMessageText e m reaction = Inr t
            \<longrightarrow> created qReaction)"
  unfolding created_def qSync_def qAttachment_def qReaction_def
  by (auto simp: sendMessageSync_queue sendAttachmentSync_queue sendReaction_queue truthy_def
      split: option.splits sum.splits)

theorem sentAt_backdated_witness:
  "\<exists>r. messageManager (snd (sendMessageSync sample_env (Some (js ''chat1'')) (Some (js ''hello''))
            Undefined None None None None None None \<lparr>messageManager = []\<rparr>)) = [r]
       \<and> sentAt r = 1700000000000"
proof -
  have a: "truthy (Some (js ''chat1''))" by (simp add: truthy_def js_def)
  from sentAt_backdated [where chatGuid' = "Some (js ''chat1'')"
      and s = "\<lparr>messageManager = []\<rparr>" and e = sample_env and message = "Some (js ''hello'')"
      and method' = Undefined and ab = None and sj = None and ef = None and sel = None
      and tg = None and pi = None] a
  show ?thesis by (simp add: sample_env_def)
qed

text \<open>
  C6, as stated, at a send through the private channel: \<^verbatim>\<open>sendMessageSync\<close> with the method
  \<open>private-api\<close> enqueues the request and then calls \<^verbatim>\<open>sendMessagePrivateApi\<close>; the
  primitive returning no identifier, the error is thrown with the request of the failed
  send in the queue.
\<close>

theorem failed_private_send_enqueued:
  "sendMessageSync sample_env (Some (js ''chat1'')) (Some (js ''hello''))
       (Given (js ''private-api'')) None None None None None None \<lparr>messageManager = []\<rparr>
     = (Inl (Error (js ''Failed to send message!'')),
        \<lparr>messageManager =
           [\<lparr>chatGuid = js ''chat1'', promiseText = Some (js ''hello''), isAttachment = False,
             sentAt = 1700000000000, subject = None, tempGuid = None\<rparr>]\<rparr>)"
  by (simp add: sendMessageSync_def sendMessagePrivateApi_def messageManager_add_def
      resultIdentifier_def sample_env_def js_def)

text \<open>
  C6 (amended): when the private send primitive returns a result without an identifier,
  \<^verbatim>\<open>sendMessagePrivateApi\<close> and \<^verbatim>\<open>sendReaction\<close> end in a thrown error, the \<open>Failed to send\<close>
  error when the call got as far as the primitive. \<^verbatim>\<open>sendMessagePrivateApi\<close> itself
  leaves the queue as it found it; the request of the send is enqueued before the
  primitive is called, by \<^verbatim>\<open>sendMessageSync\<close> on its way to \<^verbatim>\<open>sendMessagePrivateApi\<close> and by
  \<^verbatim>\<open>sendReaction\<close>, and it is in the queue when the error is thrown.
\<close>

theorem private_send_without_identifier:
  assumes "resultIdentifier result = None"
  shows "(privateApiSendMessage e cg message ab sj ef sel (case pi of Some i \<Rightarrow> i | None \<Rightarrow> 0)
            = Inr result \<longrightarrow>
          (\<exists>ex. sendMessagePrivateApi e cg message ab sj ef sel pi s = (Inl ex, s))
          \<and> (checkPrivateApiStatus e = None \<longrightarrow>
               sendMessagePrivateApi e cg message ab sj ef sel pi s
                 = (Inl (Error (js ''Failed to send message!'')), s))
          \<and> (checkPrivateApiStatus e = None \<and> cg \<noteq> [] \<longrightarrow>
               sendMessageSync e (Some cg) message (Given (js ''private-api'')) ab sj ef sel tg pi s
                 = (Inl (Error (js ''Failed to send message!'')),
                    s\<lparr>messageManager := messageManager s @
                        [\<lparr>chatGuid = cg, promiseText = message, isAttachment = False,
                          sentAt = now e - 10000, subject = sj, tempGuid = tg\<rparr>]\<rparr>)))
       \<and> (privateApiSendReaction e cg (guid m) reaction (case pi of Some i \<Rightarrow> i | None \<Rightarrow> 0)
            = Inr result \<longrightarrow>
          (\<exists>ex s'. sendReaction e cg m reaction tg pi s = (Inl ex, s'))
          \<and> (checkPrivateApiStatus e = None \<and> reactionMessageText e m reaction = Inr t \<longrightarrow>
               sendReaction e cg m reaction tg pi s
                 = (Inl (Error (js ''Failed to send reaction! No message GUID returned.'')),
                    s\<lparr>messageManager := messageManager s @
                        [\<lparr>chatGuid = cg, promiseText = Some t, isAttachment = False,
                          sentAt = now e - 10000, subject = None, tempGuid = tg\<rparr>]\<rparr>)))"
proof -
  have api: "privateApiSendMessage e cg message ab sj ef sel (case pi of Some i \<Rightarrow> i | None \<Rightarrow> 0)
               = Inr result \<Longrightarrow> checkPrivateApiStatus e = None \<Longrightarrow>
             sendMessagePrivateApi e cg message ab sj ef sel pi' s'
               = (Inl (Error (js ''Failed to send message!'')), s')"
    if "(case pi' of Some i \<Rightarrow> i | None \<Rightarrow> 0) = (case pi of Some i \<Rightarrow> i | None \<Rightarrow> 0)"
    for pi' s'
    using assms that by (simp add: sendMessagePrivateApi_def)
  have 1: "privateApiSendMessage e cg message ab sj ef sel (case pi of Some i \<Rightarrow> i | None \<Rightarrow> 0)
            = Inr result \<Longrightarrow>
          \<exists>ex. sendMessagePrivateApi e cg message ab sj ef sel pi s = (Inl ex, s)"
    using assms by (auto simp: sendMessagePrivateApi_def split: option.splits)
  have 2: "privateApiSendMessage e cg message ab sj ef sel (case pi of Some i \<Rightarrow> i | None \<Rightarrow> 0)
            = Inr result \<Longrightarrow> checkPrivateApiStatus e = None \<Longrightarrow> cg \<noteq> [] \<Longrightarrow>
          sendMessageSync e (Some cg) message (Given (js ''private-api'')) ab sj ef sel tg pi s
            = (Inl (Error (js ''Failed to send message!'')),
               s\<lparr>messageManager := messageManager s @
                   [\<lparr>chatGuid = cg, promiseText = message, isAttachment = False,
                     sentAt = now e - 10000, subject = sj, tempGuid = tg\<rparr>]\<rparr>)"
    using api [of "Some (case pi of Some i \<Rightarrow> i | None \<Rightarrow> 0)"]
    by (simp add: sendMessageSync_def messageManager_add_def Let_def js_def)
  have 3: "privateApiSendReaction e cg (guid m) reaction (case pi of Some i \<Rightarrow> i | None \<Rightarrow> 0)
            = Inr result \<Longrightarrow>
          (\<exists>ex s'. sendReaction e cg m reaction tg pi s = (Inl ex, s'))
          \<and> (checkPrivateApiStatus e = None \<and> reactionMessageText e m reaction = Inr t \<longrightarrow>
               sendReaction e cg m reaction tg pi s
                 = (Inl (Error (js ''Failed to send reaction! No message GUID returned.'')),
                    s\<lparr>messageManager := messageManager s @
                        [\<lparr>chatGuid = cg, promiseText = Some t, isAttachment = False,
                          sentAt = now e - 10000, subject = None, tempGuid = tg\<rparr>]\<rparr>))"
    using assms
    by (auto simp: sendReaction_def messageManager_add_def Let_def split: option.splits sum.splits)
  from 1 2 3 api [of pi s] show ?thesis by blast
qed

theorem private_send_without_identifier_witness:
  "sendMessagePrivateApi sample_env (js ''chat1'') (Some (js ''hello'')) None None None None None
       \<lparr>messageManager = []\<rparr>
     = (Inl (Error (js ''Failed to send message!'')), \<lparr>messageManager = []\<rparr>)
   \<and> sendReaction sample_env (js ''chat1'')
            \<lparr>guid = js ''A1'', dateDelivered = None, dateRead = None,
              universalText = Some (js ''hi''), attachments = []\<rparr>
            (js ''love'') None None \<lparr>messageManager = []\<rparr>
     = (Inl (Error (js ''Failed to send reaction! No message GUID returned.'')),
        \<lparr>messageManager =
           [\<lparr>chatGuid = js ''chat1'',
             promiseText = Some (js ''Loved '' @ [8220] @ js ''hi'' @ [8221]),
             isAttachment = False, sentAt = 1700000000000, subject = None, tempGuid = None\<rparr>]\<rparr>)"
proof -
  have a: "resultIdentifier None = None" by (simp add: resultIdentifier_def)
  have t: "reactionMessageText sample_env
            \<lparr>guid = js ''A1'', dateDelivered = None, dateRead = None,
              universalText = Some (js ''hi''), attachments = []\<rparr> (js ''love'')
           = Inr (js ''Loved '' @ [8220] @ js ''hi'' @ [8221])"
    by (simp add: reactionMessageText_def sample_env_def startsWith_def
        template_undefined_def js_def)
  show ?thesis
    using private_send_without_identifier [OF a, where e = sample_env and cg = "js ''chat1''"
        and message = "Some (js ''hello'')" and ab = None and sj = None and ef = None
        and sel = None and pi = None and s = "\<lparr>messageManager = []\<rparr>"
        and m = "\<lparr>guid = js ''A1'', dateDelivered = None, dateRead = None,
              universalText = Some (js ''hi''), attachments = []\<rparr>" and reaction = "js ''love''"
        and t = "js ''Loved '' @ [8220] @ js ''hi'' @ [8221]" and tg = None] t
    by (simp add: sample_env_def)
qed

text \<open>
  C7: with a falsy chat identity (null, undefined or the empty string), \<^verbatim>\<open>sendMessageSync\<close>
  and \<^verbatim>\<open>sendAttachmentSync\<close> throw \<open>No chat GUID provided\<close> and leave the queue as it was.
\<close>

theorem send_without_chat_rejected:
  assumes "\<not> truthy chatGuid'"
  shows "sendMessageSync e chatGuid' message method' ab sj ef sel tg pi s
           = (Inl (Error (js ''No chat GUID provided'')), s)
         \<and> sendAttachmentSync e chatGuid' path name ag s
           = (Inl (Error (js ''No chat GUID provided'')), s)"
  using assms
  by (simp add: sendMessageSync_def sendAttachmentSync_def truthy_def split: option.splits)

theorem send_without_chat_rejected_witness:
  "sendMessageSync sample_env (Some []) (Some (js ''hello'')) Undefined None None None None None None
       \<lparr>messageManager = []\<rparr>
     = (Inl (Error (js ''No chat GUID provided'')), \<lparr>messageManager = []\<rparr>)
   \<and> sendAttachmentSync sample_env None (js ''/tmp/a.png'') (Some (js ''a.png'')) None
       \<lparr>messageManager = []\<rparr>
     = (Inl (Error (js ''No chat GUID provided'')), \<lparr>messageManager = []\<rparr>)"
proof -
  have a: "\<not> truthy (Some [])" and b: "\<not> truthy None" by (simp_all add: truthy_def)
  show ?thesis
    using send_without_chat_rejected [OF a, of sample_env]
      send_without_chat_rejected [OF b, of sample_env]
    by simp
qed

section \<open>Claims about starting the chat listeners\<close>

text \<open>
  C5, as stated, at two concrete servers. With the repository present and its store handle
  absent, \<^verbatim>\<open>start\<close> ends with no chat listener at all (not one refusing while the others
  run) and with the queue service not started; the notice is an alert, and the log holds
  the three progress messages only. With no repository object either, reading its
  \<open>db\<close> throws a \<open>TypeError\<close> and \<^verbatim>\<open>start\<close> does not go on.
\<close>

theorem absent_store_handle_no_listener:
  "start 1000
     \<lparr>iMessageRepo = Some \<lparr>db = None\<rparr>, socketService = Some False, fcmService = Some False,
      queueService = Some \<lparr>started = False, queueEvents = []\<rparr>, alerts = [], logs = [],
      chatListeners = [], ipcHandlers = []\<rparr>
   = Inr \<lparr>iMessageRepo = Some \<lparr>db = None\<rparr>, socketService = Some True,
          fcmService = Some True,
          queueService = Some \<lparr>started = False, queueEvents = []\<rparr>,
          alerts = [(js ''info'', permissionsNotice)],
          logs = [js ''Starting socket service...'', js ''Starting chat listener...'',
                  js ''Connecting to Ngrok...''],
          chatListeners = [],
          ipcHandlers =
            [js ''set-config'', js ''get-config'', js ''get-message-count'',
             js ''get-chat-image-count'', js ''get-group-message-counts'',
             js ''get-individual-message-counts'', js ''set-fcm-server'', js ''set-fcm-client'',
             js ''get-devices'', js ''get-fcm-server'', js ''get-fcm-client'',
             js ''complete-tutorial'', js ''get-alerts'', js ''mark-alert-as-read'']\<rparr>
   \<and> start 1000
     \<lparr>iMessageRepo = None, socketService = Some False, fcmService = Some False,
      queueService = Some \<lparr>started = False, queueEvents = []\<rparr>, alerts = [], logs = [],
      chatListeners = [], ipcHandlers = []\<rparr>
   = Inl TypeError"
  by (simp add: start_def startChatListener_def startIpcListener_def log_def
      alertService_create_def)

text \<open>
  C5 (amended): when the repository exists and its store handle \<open>db\<close> is absent,
  \<^verbatim>\<open>startChatListener\<close> returns without throwing, having created one \<open>info\<close> alert that
  holds the notice and changed nothing else: none of the chat listeners is created, the
  queue service is left as it was and nothing is written to the log. \<^verbatim>\<open>start\<close> then goes
  on: with the socket and FCM services present it leaves both started, registers the
  fourteen IPC handlers and logs its three progress messages.
\<close>

theorem absent_store_handle:
  assumes "iMessageRepo s = Some repo" and "db repo = None"
  shows "startChatListener pf s = Inr (s\<lparr>alerts := alerts s @ [(js ''info'', permissionsNotice)]\<rparr>)
       \<and> (socketService s \<noteq> None \<and> fcmService s \<noteq> None \<longrightarrow>
            start pf s =
              Inr (s\<lparr>socketService := Some True, fcmService := Some True,
                     alerts := alerts s @ [(js ''info'', permissionsNotice)],
                     logs := logs s @
                       [js ''Starting socket service...'', js ''Starting chat listener...'',
                        js ''Connecting to Ngrok...''],
                     ipcHandlers := ipcHandlers s @
                       [js ''set-config'', js ''get-config'', js ''get-message-count'',
                        js ''get-chat-image-count'', js ''get-group-message-counts'',
                        js ''get-individual-message-counts'', js ''set-fcm-server'',
                        js ''set-fcm-client'', js ''get-devices'', js ''get-fcm-server'',
                        js ''get-fcm-client'', js ''complete-tutorial'', js ''get-alerts'',
                        js ''mark-alert-as-read'']\<rparr>))"
  using assms
  by (auto simp: startChatListener_def start_def log_def alertService_create_def
      startIpcListener_def Let_def)

theorem absent_store_handle_witness:
  "startChatListener 1000
     \<lparr>iMessageRepo = Some \<lparr>db = None\<rparr>, socketService = Some False, fcmService = Some False,
      queueService = Some \<lparr>started = False, queueEvents = []\<rparr>, alerts = [], logs = [],
      chatListeners = [], ipcHandlers = []\<rparr>
   = Inr \<lparr>iMessageRepo = Some \<lparr>db = None\<rparr>, socketService = Some False,
          fcmService = Some False,
          queueService = Some \<lparr>started = False, queueEvents = []\<rparr>,
          alerts = [(js ''info'', permissionsNotice)], logs = [],
          chatListeners = [], ipcHandlers = []\<rparr>"
  using absent_store_handle [where repo = "\<lparr>db = None\<rparr>" and pf = 1000 and
      s = "\<lparr>iMessageRepo = Some \<lparr>db = None\<rparr>, socketService = Some False,
            fcmService = Some False,
            queueService = Some \<lparr>started = False, queueEvents = []\<rparr>, alerts = [], logs = [],
            chatListeners = [], ipcHandlers = []\<rparr>"]
  by simp

section \<open>Claims about the helper channel\<close>





section \<open>Claims about \<^verbatim>\<open>AttributedBodyTransformer\<close>\<close>

lemma renameValue_filtered:
  "x \<in> set (map renameValue (filter isAttributedString vals)) \<Longrightarrow>
     \<exists>ps. x = NSAttributedString ps \<and> js ''value'' \<notin> dom ps"
proof -
  assume "x \<in> set (map renameValue (filter isAttributedString vals))"
  then obtain y where y: "y \<in> set vals" "isAttributedString y" "x = renameValue y" by auto
  from y(2) obtain qs where "y = NSAttributedString qs" by (cases y) auto
  with y show ?thesis by (auto simp: js_def)
qed

text \<open>
  C9, as stated, at a value that decodes to the empty array: \<^verbatim>\<open>from\<close> returns null through
  the early return, and the log is as it was (here empty), nothing having been logged.
\<close>

theorem transformer_empty_not_logged:
  "AttributedBodyTransformer_from
     \<lparr>decodeAll = (\<lambda>d. Inr []), isEmpty = (\<lambda>groups. groups = [])\<rparr> ([1] :: 8 word list) []
   = (Inr (None :: jsstring TypedValue list option), [])"
  by (simp add: AttributedBodyTransformer_from_def decodeAttributedBodies_def)

text \<open>
  C9 (amended): \<^verbatim>\<open>from\<close> never throws; it returns null or a list whose elements are all
  \<^verbatim>\<open>NSAttributedString\<close>s without a \<open>value\<close> property, a former \<open>value\<close> being held by
  \<open>string\<close>. On a value that fails to deserialize it returns null after logging the
  failure; on a value that decodes to an empty result it returns null and logs nothing;
  on a non-empty result it returns the renamed attributed strings of the first group.
  \<^verbatim>\<open>to\<close> returns null.
\<close>

theorem transformer_from_null_or_strings:
  "(\<exists>r l. AttributedBodyTransformer_from u dbValue serverLog = (Inr r, l)
       \<and> (r = None \<or> (\<exists>xs. r = Some xs
             \<and> (\<forall>x \<in> set xs. \<exists>ps. x = NSAttributedString ps \<and> js ''value'' \<notin> dom ps))))
   \<and> (\<forall>ex. decodeAll u dbValue = Inl ex \<longrightarrow>
         AttributedBodyTransformer_from u dbValue serverLog
           = (Inr None,
              serverLog @ [(js ''Failed to deserialize attributedBody: '', ex, js ''debug'')]))
   \<and> (\<forall>groups. decodeAll u dbValue = Inr groups \<and> isEmpty u groups \<longrightarrow>
         AttributedBodyTransformer_from u dbValue serverLog = (Inr None, serverLog))
   \<and> (\<forall>groups vals rest. decodeAll u dbValue = Inr groups \<and> \<not> isEmpty u groups
          \<and> groups = Some vals # rest \<longrightarrow>
         AttributedBodyTransformer_from u dbValue serverLog
           = (Inr (Some (map renameValue (filter isAttributedString vals))), serverLog))
   \<and> renameValue (NSAttributedString (ps(js ''value'' \<mapsto> v)))
       = NSAttributedString ((ps(js ''string'' \<mapsto> v))(js ''value'' := None))
   \<and> AttributedBodyTransformer_to v' = (None :: 'd option)"
proof (intro conjI)
  show "\<exists>r l. AttributedBodyTransformer_from u dbValue serverLog = (Inr r, l)
       \<and> (r = None \<or> (\<exists>xs. r = Some xs
             \<and> (\<forall>x \<in> set xs. \<exists>ps. x = NSAttributedString ps \<and> js ''value'' \<notin> dom ps)))"
    using renameValue_filtered
    by (fastforce simp: AttributedBodyTransformer_from_def decodeAttributedBodies_def
        split: sum.splits list.splits option.splits if_splits)
qed (auto simp: AttributedBodyTransformer_from_def decodeAttributedBodies_def
      AttributedBodyTransformer_to_def)

theorem transformer_from_null_or_strings_witness:
  "AttributedBodyTransformer_from sample_unarchiver [] []
     = (Inr None,
        [(js ''Failed to deserialize attributedBody: '', Error (js ''Unexpected end of data''),
          js ''debug'')])
   \<and> AttributedBodyTransformer_from sample_unarchiver [1] []
     = (Inr (Some [NSAttributedString [js ''string'' \<mapsto> js ''hi'']]), [])"
proof -
  have a: "decodeAll sample_unarchiver [] = Inl (Error (js ''Unexpected end of data''))"
    by (simp add: sample_unarchiver_def)
  have b: "decodeAll sample_unarchiver [1]
             = Inr [Some [Falsy, NSAttributedString [js ''value'' \<mapsto> js ''hi''], OtherValue]]"
    by (simp add: sample_unarchiver_def)
  have c: "\<not> isEmpty sample_unarchiver
             [Some [Falsy, NSAttributedString [js ''value'' \<mapsto> js ''hi''], OtherValue]]"
    by (simp add: sample_unarchiver_def)
  have d: "map renameValue (filter isAttributedString
             [Falsy, NSAttributedString [js ''value'' \<mapsto> js ''hi''], OtherValue])
           = [NSAttributedString [js ''string'' \<mapsto> js ''hi'']]"
    by (auto simp: js_def)
  from transformer_from_null_or_strings [where u = sample_unarchiver and dbValue = "[]"
      and serverLog = "[]" and v' = "()" and ps = Map.empty and v = "[]"] a
  have 1: "AttributedBodyTransformer_from sample_unarchiver [] []
     = (Inr None,
        [] @ [(js ''Failed to deserialize attributedBody: '', Error (js ''Unexpected end of data''),
          js ''debug'')])"
    by blast
  from transformer_from_null_or_strings [where u = sample_unarchiver and dbValue = "[1]"
      and serverLog = "[]" and v' = "()" and ps = Map.empty and v = "[]"] b c
  have "AttributedBodyTransformer_from sample_unarchiver [1] []
     = (Inr (Some (map renameValue (filter isAttributedString
          [Falsy, NSAttributedString [js ''value'' \<mapsto> js ''hi''], OtherValue]))), [])"
    by blast
  with 1 d show ?thesis by simp
qed

section \<open>Claims about attachment conversion\<close>

lemma convertAudio_frame:
  fixes fs :: FileSystem and a :: Attachment
  defines "p \<equiv> convertDir fs @ js ''/'' @ attachmentGuid a @ js ''.mp3''"
  shows "(uti a \<noteq> Some (js ''com.apple.coreaudio-format'')
            \<or> (\<not> existsSync fs p \<and> convertCafToMp3 fs a p \<noteq> None)
          \<longrightarrow> convertAudio fs a = (None, a))
       \<and> (convertAudio fs a \<noteq> (None, a) \<longrightarrow>
            uti a = Some (js ''com.apple.coreaudio-format'')
            \<and> (existsSync fs p \<or> convertCafToMp3 fs a p = None)
            \<and> convertAudio fs a =
                (Some p, a\<lparr>mimeType := Some (js ''audio/mp3''), filePath := p,
                   transferName := replace (basename p) (js ''.caf'') (js ''.mp3'')\<rparr>))"
  unfolding p_def
  by (auto simp: convertAudio_def Let_def js_append)

lemma convertImage_frame:
  fixes fs :: FileSystem and a :: Attachment
  defines "p \<equiv> convertDir fs @ js ''/'' @ attachmentGuid a @ js ''.jpg''"
  assumes ne: "\<not> isNotEmptyString fs None"
  shows "((\<forall>mt. mimeType a = Some mt \<longrightarrow> \<not> startsWith mt (js ''image/heic''))
            \<or> (\<not> existsSync fs p \<and> convertToJpg fs (js ''heic'') a p \<noteq> None)
          \<longrightarrow> convertImage fs a = (Inr None, a))
       \<and> (convertImage fs a \<noteq> (Inr None, a) \<longrightarrow>
            (\<exists>mt. mimeType a = Some mt \<and> startsWith mt (js ''image/heic''))
            \<and> (existsSync fs p \<or> convertToJpg fs (js ''heic'') a p = None)
            \<and> convertImage fs a =
                (Inr (Some p), a\<lparr>mimeType := Some (js ''image/jpg''), filePath := p,
                   transferName := replace (basename p) (js ''.heic'') (js ''.jpg'')\<rparr>))"
  using ne unfolding p_def
  by (cases "mimeType a") (auto simp: convertImage_def Let_def js_append)

lemma convertVideo_frame:
  fixes fs :: FileSystem and a :: Attachment
  defines "p \<equiv> convertDir fs @ js ''/'' @ attachmentGuid a @ js ''.mp4''"
  assumes ne: "\<not> isNotEmptyString fs None"
  shows "((uti a \<noteq> Some (js ''com.apple.quicktime-movie'')
             \<and> (\<forall>mt. mimeType a = Some mt \<longrightarrow> \<not> startsWith mt (js ''video/quicktime'')))
            \<or> (\<not> existsSync fs p \<and> convertToMp4 fs a p \<noteq> None)
          \<longrightarrow> convertVideo fs a = (Inr None, a))
       \<and> (convertVideo fs a \<noteq> (Inr None, a) \<longrightarrow>
            (uti a = Some (js ''com.apple.quicktime-movie'')
               \<or> (\<exists>mt. mimeType a = Some mt \<and> startsWith mt (js ''video/quicktime'')))
            \<and> (existsSync fs p \<or> convertToMp4 fs a p = None)
            \<and> convertVideo fs a =
                (Inr (Some p), a\<lparr>mimeType := Some (js ''video/mp4''), filePath := p,
                   transferName := replace (basename p) (js ''.mov'') (js ''.mp4'')\<rparr>))"
  using ne unfolding p_def
  by (cases "mimeType a") (auto simp: convertVideo_def Let_def js_append)

text \<open>
  C10: provided \<^verbatim>\<open>isNotEmpty\<close> is false of a null MIME type, each converter returns null and
  leaves the attachment as it was when the format is not the recognized one or the
  conversion it attempts throws; and when it does anything else, the format is the
  recognized one, no conversion failed, the new path is returned and \<open>mimeType\<close>,
  \<open>filePath\<close> and \<open>transferName\<close> are rewritten.
\<close>

theorem conversion_frame:
  fixes fs :: FileSystem and a :: Attachment
  defines "mp3 \<equiv> convertDir fs @ js ''/'' @ attachmentGuid a @ js ''.mp3''"
  defines "jpg \<equiv> convertDir fs @ js ''/'' @ attachmentGuid a @ js ''.jpg''"
  defines "mp4 \<equiv> convertDir fs @ js ''/'' @ attachmentGuid a @ js ''.mp4''"
  assumes ne: "\<not> isNotEmptyString fs None"
  shows "(uti a \<noteq> Some (js ''com.apple.coreaudio-format'')
            \<or> (\<not> existsSync fs mp3 \<and> convertCafToMp3 fs a mp3 \<noteq> None)
          \<longrightarrow> convertAudio fs a = (None, a))
       \<and> (convertAudio fs a \<noteq> (None, a) \<longrightarrow>
            uti a = Some (js ''com.apple.coreaudio-format'')
            \<and> (existsSync fs mp3 \<or> convertCafToMp3 fs a mp3 = None)
            \<and> convertAudio fs a =
                (Some mp3, a\<lparr>mimeType := Some (js ''audio/mp3''), filePath := mp3,
                   transferName := replace (basename mp3) (js ''.caf'') (js ''.mp3'')\<rparr>))
       \<and> ((\<forall>mt. mimeType a = Some mt \<longrightarrow> \<not> startsWith mt (js ''image/heic''))
            \<or> (\<not> existsSync fs jpg \<and> convertToJpg fs (js ''heic'') a jpg \<noteq> None)
          \<longrightarrow> convertImage fs a = (Inr None, a))
       \<and> (convertImage fs a \<noteq> (Inr None, a) \<longrightarrow>
            (\<exists>mt. mimeType a = Some mt \<and> startsWith mt (js ''image/heic''))
            \<and> (existsSync fs jpg \<or> convertToJpg fs (js ''heic'') a jpg = None)
            \<and> convertImage fs a =
                (Inr (Some jpg), a\<lparr>mimeType := Some (js ''image/jpg''), filePath := jpg,
                   transferName := replace (basename jpg) (js ''.heic'') (js ''.jpg'')\<rparr>))
       \<and> ((uti a \<noteq> Some (js ''com.apple.quicktime-movie'')
             \<and> (\<forall>mt. mimeType a = Some mt \<longrightarrow> \<not> startsWith mt (js ''video/quicktime'')))
            \<or> (\<not> existsSync fs mp4 \<and> convertToMp4 fs a mp4 \<noteq> None)
          \<longrightarrow> convertVideo fs a = (Inr None, a))
       \<and> (convertVideo fs a \<noteq> (Inr None, a) \<longrightarrow>
            (uti a = Some (js ''com.apple.quicktime-movie'')
               \<or> (\<exists>mt. mimeType a = Some mt \<and> startsWith mt (js ''video/quicktime'')))
            \<and> (existsSync fs mp4 \<or> convertToMp4 fs a mp4 = None)
            \<and> convertVideo fs a =
                (Inr (Some mp4), a\<lparr>mimeType := Some (js ''video/mp4''), filePath := mp4,
                   transferName := replace (basename mp4) (js ''.mov'') (js ''.mp4'')\<rparr>))"
  unfolding mp3_def jpg_def mp4_def
  using convertAudio_frame [of a fs] convertImage_frame [OF ne, of a] convertVideo_frame [OF ne, of a]
  by (intro conjI) blast+

theorem conversion_frame_witness:
  "convertImage sample_fs
     \<lparr>attachmentGuid = js ''B1'', uti = Some (js ''public.heic''),
      mimeType = Some (js ''image/heic''), filePath = js ''/tmp/IMG_1.heic'',
      transferName = js ''IMG_1.heic''\<rparr>
   = (Inr None,
      \<lparr>attachmentGuid = js ''B1'', uti = Some (js ''public.heic''),
       mimeType = Some (js ''image/heic''), filePath = js ''/tmp/IMG_1.heic'',
       transferName = js ''IMG_1.heic''\<rparr>)"
  (is "convertImage sample_fs ?a = (Inr None, ?a)")
proof -
  have ne: "\<not> isNotEmptyString sample_fs None"
    by (simp add: sample_fs_def truthy_def)
  have t: "\<not> existsSync sample_fs (convertDir sample_fs @ js ''/'' @ attachmentGuid ?a @ js ''.jpg'')
         \<and> convertToJpg sample_fs (js ''heic'') ?a
             (convertDir sample_fs @ js ''/'' @ attachmentGuid ?a @ js ''.jpg'') \<noteq> None"
    by (simp add: sample_fs_def)
  from conversion_frame [OF ne, of ?a] t show ?thesis by blast
qed

end
